theory Spec2Isabelle
  imports Main "HOL-Library.Sublist"
begin

section \<open>The offline synchronisation queue of Glass Inspector\<close>

text \<open>
  A shallow embedding of \<^verbatim>\<open>apps/web/src/hooks/useOfflineSync.ts\<close> and of the
  part of the Dexie database module (\<^verbatim>\<open>db/index.ts\<close>) that it uses: the three
  entity tables keyed by local identifier, the \<^verbatim>\<open>syncQueue\<close> table keyed by an
  auto-incremented number, the three per-entity handlers, the dispatcher, the drain loop
  of \<^verbatim>\<open>processQueue\<close> with its try/catch, and \<^verbatim>\<open>addToQueue\<close>.
\<close>

subsection \<open>Data model (db/index.ts)\<close>

datatype SyncStatus = Synced | Pending | Error

datatype OpType = CREATE | UPDATE | DELETE

datatype EntityType = Session | Item | Defect

text \<open>
  \<^verbatim>\<open>Record<string, unknown>\<close>: a JSON object, as an association list. The code reads
  two of its properties only (\<^verbatim>\<open>sessionId\<close>, \<^verbatim>\<open>itemId\<close>), both cast to string and
  spliced into a URL, and the \<^verbatim>\<open>id\<close> of a response; values are kept as strings.
\<close>

type_synonym json_object = "(string \<times> string) list"

text \<open>
  A row of \<^verbatim>\<open>sessions\<close>, \<^verbatim>\<open>items\<close> or \<^verbatim>\<open>defects\<close>: the fields of
  \<^verbatim>\<open>SyncableEntity\<close>, the \<^verbatim>\<open>id\<close> property that the handlers overwrite with the
  server's identifier (\<open>None\<close> when the property is undefined), and the remaining
  domain fields, which the synchronisation code never reads.
\<close>

record LocalEntity =
  entity_id :: "string option"
  syncStatus :: SyncStatus
  lastModified :: nat
  other_fields :: json_object

record SyncOperation =
  op_id :: nat
  op_type :: OpType
  entityType :: EntityType
  localId :: string
  serverId :: "string option"
  data :: json_object
  timestamp :: nat
  attempts :: nat
  lastError :: "string option"

text \<open>
  The database. The entity tables are keyed by \<^verbatim>\<open>localId\<close>; \<^verbatim>\<open>syncQueue\<close> has the
  auto-incremented primary key \<^verbatim>\<open>++id\<close>, whose key generator is \<open>syncQueue_next\<close>.
\<close>

record GlassInspectorDB =
  sessions :: "string \<rightharpoonup> LocalEntity"
  items :: "string \<rightharpoonup> LocalEntity"
  defects :: "string \<rightharpoonup> LocalEntity"
  syncQueue :: "SyncOperation list"
  syncQueue_next :: nat

subsection \<open>The remote collaborator (lib/api)\<close>

text \<open>
  \<^verbatim>\<open>api.post\<close>, \<^verbatim>\<open>api.patch\<close> and \<^verbatim>\<open>api.delete\<close> send one \<^verbatim>\<open>fetch\<close> each; a
  rejected fetch, a 401 and any other status that is not ok make them throw an
  \<^verbatim>\<open>Error\<close>, and otherwise they return the parsed body as an \<^verbatim>\<open>ApiResponse\<close>. What the
  network and the server answer is the parameter of the model: a deterministic machine
  with a state of its own that answers a request either by returning an
  \<^verbatim>\<open>ApiResponse\<close> or by throwing.
  \<open>Throws\<close> carries \<^verbatim>\<open>String(error)\<close>, the text that the catch block stores. A response's
  \<^verbatim>\<open>data\<close> is \<open>None\<close> when the property is missing or falsy.
\<close>

datatype request =
    Post string json_object
  | Patch string json_object
  | Delete string

record ApiResponse =
  success :: bool
  response_data :: "json_object option"

datatype 'a outcome = Returns 'a | Throws string

type_synonym 'r api = "'r \<Rightarrow> request \<Rightarrow> ApiResponse outcome \<times> 'r"

text \<open>One remote call as it is observed: the operation replayed, the request, the answer.\<close>

record call =
  call_op :: SyncOperation
  call_request :: request
  call_outcome :: "ApiResponse outcome"

text \<open>
  The state the hook works on. \<open>submitted\<close> and \<open>attempted\<close> are observation logs,
  oldest entry first: the remote calls made, and the operations handed to
  \<^verbatim>\<open>processOperation\<close>. \<open>isSyncing\<close> and \<open>pendingCount\<close> are the React state cells
  written by \<^verbatim>\<open>setIsSyncing\<close> and \<^verbatim>\<open>setPendingCount\<close>.
\<close>

record 'r world =
  db :: GlassInspectorDB
  remote :: 'r
  submitted :: "call list"
  attempted :: "SyncOperation list"
  isSyncing :: bool
  pendingCount :: nat

subsection \<open>Dexie table operations\<close>

text \<open>
  The table operations are taken to succeed, as writes to the local database do; a
  \<^verbatim>\<open>update\<close> or \<^verbatim>\<open>delete\<close> of a key that is not in the table changes nothing.
\<close>

definition queue_update :: "nat \<Rightarrow> nat \<Rightarrow> string \<Rightarrow> GlassInspectorDB \<Rightarrow> GlassInspectorDB" where
  "queue_update k n e d =
     d\<lparr>syncQueue := map (\<lambda>row. if op_id row = k then row\<lparr>attempts := n, lastError := Some e\<rparr> else row)
                         (syncQueue d)\<rparr>"

definition queue_delete :: "nat \<Rightarrow> GlassInspectorDB \<Rightarrow> GlassInspectorDB" where
  "queue_delete k d = d\<lparr>syncQueue := filter (\<lambda>row. op_id row \<noteq> k) (syncQueue d)\<rparr>"

text \<open>
  \<^verbatim>\<open>db.syncQueue.orderBy('timestamp').toArray()\<close>: the rows in the order of the
  \<^verbatim>\<open>timestamp\<close> index, rows of equal timestamp in primary-key order.
\<close>

definition orderBy_timestamp :: "SyncOperation list \<Rightarrow> SyncOperation list" where
  "orderBy_timestamp q = sort_key timestamp (sort_key op_id q)"

text \<open>\<^verbatim>\<open>table.update(key, {id, syncStatus: 'synced'})\<close> on a row that exists.\<close>

definition mark_synced :: "string option \<Rightarrow> LocalEntity \<Rightarrow> LocalEntity" where
  "mark_synced sid e = e\<lparr>entity_id := sid, syncStatus := Synced\<rparr>"

subsection \<open>The handlers\<close>

definition call_api :: "'r api \<Rightarrow> SyncOperation \<Rightarrow> request \<Rightarrow> 'r world \<Rightarrow> ApiResponse outcome \<times> 'r world" where
  "call_api api op req w =
     (let (res, r') = api (remote w) req
      in (res, w\<lparr>remote := r',
                 submitted := submitted w @ [\<lparr>call_op = op, call_request = req, call_outcome = res\<rparr>]\<rparr>))"

text \<open>\<^verbatim>\<open>`${op.data.sessionId as string}`\<close>: a missing property prints as \<^verbatim>\<open>undefined\<close>.\<close>

definition template_field :: "json_object \<Rightarrow> string \<Rightarrow> string" where
  "template_field d k = (case map_of d k of Some v \<Rightarrow> v | None \<Rightarrow> ''undefined'')"

definition processSessionOperation :: "'r api \<Rightarrow> SyncOperation \<Rightarrow> 'r world \<Rightarrow> unit outcome \<times> 'r world" where
  "processSessionOperation api op w =
     (case op_type op of
        CREATE \<Rightarrow>
          (case call_api api op (Post ''/sessions'' (data op)) w of
             (Throws e, w') \<Rightarrow> (Throws e, w')
           | (Returns response, w') \<Rightarrow>
               (case (if success response then response_data response else None) of
                  None \<Rightarrow> (Returns (), w')
                | Some d \<Rightarrow>
                    (case sessions (db w') (localId op) of
                       None \<Rightarrow> (Returns (), w')
                     | Some localSession \<Rightarrow>
                         (Returns (),
                          w'\<lparr>db := (db w')\<lparr>sessions := (sessions (db w'))
                                 (localId op \<mapsto> mark_synced (map_of d ''id'') localSession)\<rparr>\<rparr>))))
      | UPDATE \<Rightarrow>
          (case serverId op of
             None \<Rightarrow> (Returns (), w)
           | Some s \<Rightarrow>
               if s = [] then (Returns (), w)
               else (case call_api api op (Patch (''/sessions/'' @ s) (data op)) w of
                       (Throws e, w') \<Rightarrow> (Throws e, w')
                     | (Returns _, w') \<Rightarrow> (Returns (), w')))
      | DELETE \<Rightarrow>
          (case serverId op of
             None \<Rightarrow> (Returns (), w)
           | Some s \<Rightarrow>
               if s = [] then (Returns (), w)
               else (case call_api api op (Delete (''/sessions/'' @ s)) w of
                       (Throws e, w') \<Rightarrow> (Throws e, w')
                     | (Returns _, w') \<Rightarrow> (Returns (), w'))))"

definition processItemOperation :: "'r api \<Rightarrow> SyncOperation \<Rightarrow> 'r world \<Rightarrow> unit outcome \<times> 'r world" where
  "processItemOperation api op w =
     (case op_type op of
        CREATE \<Rightarrow>
          (case call_api api op
                  (Post (''/sessions/'' @ template_field (data op) ''sessionId'' @ ''/items'') (data op)) w of
             (Throws e, w') \<Rightarrow> (Throws e, w')
           | (Returns response, w') \<Rightarrow>
               (case (if success response then response_data response else None) of
                  None \<Rightarrow> (Returns (), w')
                | Some d \<Rightarrow>
                    (case items (db w') (localId op) of
                       None \<Rightarrow> (Returns (), w')
                     | Some localItem \<Rightarrow>
                         (Returns (),
                          w'\<lparr>db := (db w')\<lparr>items := (items (db w'))
                                 (localId op \<mapsto> mark_synced (map_of d ''id'') localItem)\<rparr>\<rparr>))))
      | UPDATE \<Rightarrow>
          (case serverId op of
             None \<Rightarrow> (Returns (), w)
           | Some s \<Rightarrow>
               if s = [] then (Returns (), w)
               else (case call_api api op (Patch (''/sessions/items/'' @ s) (data op)) w of
                       (Throws e, w') \<Rightarrow> (Throws e, w')
                     | (Returns _, w') \<Rightarrow> (Returns (), w')))
      | DELETE \<Rightarrow> (Returns (), w))"

definition processDefectOperation :: "'r api \<Rightarrow> SyncOperation \<Rightarrow> 'r world \<Rightarrow> unit outcome \<times> 'r world" where
  "processDefectOperation api op w =
     (case op_type op of
        CREATE \<Rightarrow>
          (case call_api api op
                  (Post (''/sessions/items/'' @ template_field (data op) ''itemId'' @ ''/defects'') (data op)) w of
             (Throws e, w') \<Rightarrow> (Throws e, w')
           | (Returns response, w') \<Rightarrow>
               (case (if success response then response_data response else None) of
                  None \<Rightarrow> (Returns (), w')
                | Some d \<Rightarrow>
                    (case defects (db w') (localId op) of
                       None \<Rightarrow> (Returns (), w')
                     | Some localDefect \<Rightarrow>
                         (Returns (),
                          w'\<lparr>db := (db w')\<lparr>defects := (defects (db w'))
                                 (localId op \<mapsto> mark_synced (map_of d ''id'') localDefect)\<rparr>\<rparr>))))
      | UPDATE \<Rightarrow> (Returns (), w)
      | DELETE \<Rightarrow>
          (case serverId op of
             None \<Rightarrow> (Returns (), w)
           | Some s \<Rightarrow>
               if s = [] then (Returns (), w)
               else (case call_api api op (Delete (''/sessions/defects/'' @ s)) w of
                       (Throws e, w') \<Rightarrow> (Throws e, w')
                     | (Returns _, w') \<Rightarrow> (Returns (), w'))))"

definition processOperation :: "'r api \<Rightarrow> SyncOperation \<Rightarrow> 'r world \<Rightarrow> unit outcome \<times> 'r world" where
  "processOperation api op w =
     (case entityType op of
        Session \<Rightarrow> processSessionOperation api op w
      | Item \<Rightarrow> processItemOperation api op w
      | Defect \<Rightarrow> processDefectOperation api op w)"

subsection \<open>processQueue and addToQueue\<close>

text \<open>
  The catch block of the loop: the row is rewritten from the snapshot value \<open>op\<close>
  (\<^verbatim>\<open>attempts: op.attempts + 1\<close>), then deleted when \<^verbatim>\<open>op.attempts >= 5\<close>.
\<close>

definition catch_block :: "SyncOperation \<Rightarrow> string \<Rightarrow> GlassInspectorDB \<Rightarrow> GlassInspectorDB" where
  "catch_block op error d =
     (let d1 = queue_update (op_id op) (attempts op + 1) error d
      in if attempts op \<ge> 5 then queue_delete (op_id op) d1 else d1)"

text \<open>The body of \<^verbatim>\<open>for (const op of operations)\<close>.\<close>

definition replay :: "'r api \<Rightarrow> SyncOperation \<Rightarrow> 'r world \<Rightarrow> 'r world" where
  "replay api op w =
     (case processOperation api op (w\<lparr>attempted := attempted w @ [op]\<rparr>) of
        (Returns _, w') \<Rightarrow> w'\<lparr>db := queue_delete (op_id op) (db w')\<rparr>
      | (Throws error, w') \<Rightarrow> w'\<lparr>db := catch_block op error (db w')\<rparr>)"

fun drain :: "'r api \<Rightarrow> SyncOperation list \<Rightarrow> 'r world \<Rightarrow> 'r world" where
  "drain api [] w = w"
| "drain api (op # operations) w = drain api operations (replay api op w)"

text \<open>
  \<^verbatim>\<open>processQueue\<close>. The guard reads the \<^verbatim>\<open>isSyncing\<close> value that the callback
  captured when it was created, which is the first argument here; the \<^verbatim>\<open>finally\<close>
  block resets the state cell and recounts the queue.
\<close>

definition processQueue :: "bool \<Rightarrow> 'r api \<Rightarrow> 'r world \<Rightarrow> 'r world" where
  "processQueue captured_isSyncing api w =
     (if captured_isSyncing then w
      else (let w' = drain api (orderBy_timestamp (syncQueue (db w))) (w\<lparr>isSyncing := True\<rparr>)
            in w'\<lparr>isSyncing := False, pendingCount := length (syncQueue (db w'))\<rparr>))"

text \<open>
  \<^verbatim>\<open>addToQueue\<close>, with \<^verbatim>\<open>Date.now()\<close> as the argument \<open>now\<close>. The timer that it arms
  when online only triggers \<^verbatim>\<open>processQueue\<close> later.
\<close>

definition addToQueue ::
  "nat \<Rightarrow> OpType \<Rightarrow> EntityType \<Rightarrow> string \<Rightarrow> json_object \<Rightarrow> string option \<Rightarrow> 'r world \<Rightarrow> 'r world" where
  "addToQueue now type entity lid payload sid w =
     w\<lparr>db := (db w)\<lparr>syncQueue := syncQueue (db w) @
                  [\<lparr>op_id = syncQueue_next (db w), op_type = type, entityType = entity,
                    localId = lid, serverId = sid, data = payload, timestamp = now,
                    attempts = 0, lastError = None\<rparr>],
                syncQueue_next := Suc (syncQueue_next (db w))\<rparr>,
       pendingCount := pendingCount w + 1\<rparr>"

subsection \<open>Vocabulary for the statements\<close>

text \<open>The table that \<^verbatim>\<open>processOperation\<close> selects for an entity kind.\<close>

definition "table" :: "EntityType \<Rightarrow> GlassInspectorDB \<Rightarrow> string \<rightharpoonup> LocalEntity" where
  "table k d = (case k of Session \<Rightarrow> sessions d | Item \<Rightarrow> items d | Defect \<Rightarrow> defects d)"

text \<open>
  The request that replaying an operation sends, read off the handlers: a function of
  the queued row alone. \<open>processOperation_submitted\<close> below proves that the handlers
  send exactly this.
\<close>

definition request_of :: "SyncOperation \<Rightarrow> request option" where
  "request_of op =
     (case (entityType op, op_type op) of
        (Session, CREATE) \<Rightarrow> Some (Post ''/sessions'' (data op))
      | (Item, CREATE) \<Rightarrow>
          Some (Post (''/sessions/'' @ template_field (data op) ''sessionId'' @ ''/items'') (data op))
      | (Defect, CREATE) \<Rightarrow>
          Some (Post (''/sessions/items/'' @ template_field (data op) ''itemId'' @ ''/defects'') (data op))
      | (Item, DELETE) \<Rightarrow> None
      | (Defect, UPDATE) \<Rightarrow> None
      | (k, t) \<Rightarrow>
          (case serverId op of
             None \<Rightarrow> None
           | Some s \<Rightarrow>
               if s = [] then None
               else Some (case (k, t) of
                            (Session, UPDATE) \<Rightarrow> Patch (''/sessions/'' @ s) (data op)
                          | (Session, DELETE) \<Rightarrow> Delete (''/sessions/'' @ s)
                          | (Item, UPDATE) \<Rightarrow> Patch (''/sessions/items/'' @ s) (data op)
                          | _ \<Rightarrow> Delete (''/sessions/defects/'' @ s))))"

definition new_calls :: "'r api \<Rightarrow> SyncOperation \<Rightarrow> 'r \<Rightarrow> call list" where
  "new_calls api op r =
     (case request_of op of
        None \<Rightarrow> []
      | Some req \<Rightarrow> [\<lparr>call_op = op, call_request = req, call_outcome = fst (api r req)\<rparr>])"

definition next_remote :: "'r api \<Rightarrow> SyncOperation \<Rightarrow> 'r \<Rightarrow> 'r" where
  "next_remote api op r = (case request_of op of None \<Rightarrow> r | Some req \<Rightarrow> snd (api r req))"

fun drain_calls :: "'r api \<Rightarrow> SyncOperation list \<Rightarrow> 'r \<Rightarrow> call list" where
  "drain_calls api [] r = []"
| "drain_calls api (op # operations) r =
     new_calls api op r @ drain_calls api operations (next_remote api op r)"

text \<open>The remote calls of one drain cycle started in \<open>w\<close>: what the cycle adds to the log.\<close>

definition cycle_calls :: "'r api \<Rightarrow> 'r world \<Rightarrow> call list" where
  "cycle_calls api w = drop (length (submitted w)) (submitted (processQueue False api w))"

text \<open>
  A remote machine fed a list of requests one after the other, each request meeting the
  state that the previous one left: the answers, and the final state.
\<close>

fun answers :: "'r api \<Rightarrow> 'r \<Rightarrow> request list \<Rightarrow> ApiResponse outcome list" where
  "answers api r [] = []"
| "answers api r (req # reqs) = fst (api r req) # answers api (snd (api r req)) reqs"

fun final_remote :: "'r api \<Rightarrow> 'r \<Rightarrow> request list \<Rightarrow> 'r" where
  "final_remote api r [] = r"
| "final_remote api r (req # reqs) = final_remote api (snd (api r req)) reqs"

text \<open>The endpoints of the update and delete handlers, and the pairs that have no case.\<close>

definition endpoint :: "EntityType \<Rightarrow> string" where
  "endpoint k = (case k of Session \<Rightarrow> ''/sessions/'' | Item \<Rightarrow> ''/sessions/items/''
                 | Defect \<Rightarrow> ''/sessions/defects/'')"

definition no_handler :: "EntityType \<Rightarrow> OpType \<Rightarrow> bool" where
  "no_handler k t = ((k = Item \<and> t = DELETE) \<or> (k = Defect \<and> t = UPDATE))"

text \<open>
  The identifier that the server assigned in one call: the \<^verbatim>\<open>id\<close> of a successful
  answer to a create for the entity \<open>(k, l)\<close>; and all of them in a log, oldest first.
\<close>

definition created_id :: "EntityType \<Rightarrow> string \<Rightarrow> call \<Rightarrow> string option" where
  "created_id k l c =
     (if op_type (call_op c) = CREATE \<and> entityType (call_op c) = k \<and> localId (call_op c) = l
      then (case call_outcome c of
              Throws _ \<Rightarrow> None
            | Returns response \<Rightarrow>
                (if success response
                 then (case response_data response of None \<Rightarrow> None | Some d \<Rightarrow> map_of d ''id'')
                 else None))
      else None)"

definition assigned_ids :: "EntityType \<Rightarrow> string \<Rightarrow> call list \<Rightarrow> string list" where
  "assigned_ids k l cs = List.map_filter (created_id k l) cs"

text \<open>
  A remote collaborator that answers every request, in every state, with a successful
  response, and every create with one that carries an identifier.
\<close>

fun is_post :: "request \<Rightarrow> bool" where
  "is_post (Post path body) = True"
| "is_post req = False"

definition always_succeeds :: "'r api \<Rightarrow> bool" where
  "always_succeeds api \<longleftrightarrow>
     (\<forall>r req. \<exists>response. fst (api r req) = Returns response \<and> success response \<and>
        (is_post req \<longrightarrow> (\<exists>d sid. response_data response = Some d \<and> map_of d ''id'' = Some sid)))"

text \<open>
  The lookup that the specification calls \<^verbatim>\<open>resolve(entityKind, localId)\<close>, written
  from the specification's words (section 4.4): the server identifier that the local
  store holds for an entity once it is synced. The source has no such function; it is
  here to compare the handlers with.
\<close>

definition spec_resolve :: "GlassInspectorDB \<Rightarrow> EntityType \<Rightarrow> string \<Rightarrow> string option" where
  "spec_resolve d k l =
     (case table k d l of
        None \<Rightarrow> None
      | Some e \<Rightarrow> if syncStatus e = Synced then entity_id e else None)"

subsection \<open>Concrete collaborators and states\<close>

text \<open>
  \<open>api_ok\<close> succeeds always and answers the creates with the identifiers of its state
  in turn;
  \<open>api_down\<close> throws always; \<open>api_rejects\<close> returns \<^verbatim>\<open>{success: false}\<close>.
\<close>

fun api_ok :: "string list api" where
  "api_ok (i # ids) (Post path body) =
     (Returns \<lparr>success = True, response_data = Some [(''id'', i)]\<rparr>, ids)"
| "api_ok [] (Post path body) =
     (Returns \<lparr>success = True, response_data = Some [(''id'', ''srv-0'')]\<rparr>, [])"
| "api_ok ids req = (Returns \<lparr>success = True, response_data = None\<rparr>, ids)"

definition api_down :: "unit api" where
  "api_down r req = (Throws ''Error: Network Error'', r)"

definition api_rejects :: "unit api" where
  "api_rejects r req = (Returns \<lparr>success = False, response_data = None\<rparr>, r)"

definition pending_entity :: LocalEntity where
  "pending_entity = \<lparr>entity_id = None, syncStatus = Pending, lastModified = 0, other_fields = []\<rparr>"

text \<open>A store that holds the session \<^verbatim>\<open>local-1\<close>, not yet synced, and an empty queue.\<close>

definition init :: "'r \<Rightarrow> 'r world" where
  "init r =
     \<lparr>db = \<lparr>sessions = [''local-1'' \<mapsto> pending_entity], items = Map.empty, defects = Map.empty,
            syncQueue = [], syncQueue_next = 1\<rparr>,
      remote = r, submitted = [], attempted = [], isSyncing = False, pendingCount = 0\<rparr>"

definition create_session :: SyncOperation where
  "create_session =
     \<lparr>op_id = 1, op_type = CREATE, entityType = Session, localId = ''local-1'', serverId = None,
      data = [(''productId'', ''p1'')], timestamp = 1000, attempts = 0, lastError = None\<rparr>"

definition update_session :: SyncOperation where
  "update_session =
     \<lparr>op_id = 1, op_type = UPDATE, entityType = Session, localId = ''local-1'', serverId = None,
      data = [(''status'', ''CLOSED'')], timestamp = 1000, attempts = 0, lastError = None\<rparr>"

definition item_delete :: SyncOperation where
  "item_delete =
     \<lparr>op_id = 1, op_type = DELETE, entityType = Item, localId = ''local-2'', serverId = Some ''srv-9'',
      data = [], timestamp = 1000, attempts = 0, lastError = None\<rparr>"

text \<open>The state after one \<^verbatim>\<open>addToQueue\<close> call on \<open>init r\<close>, with the arguments of the row \<open>op\<close>.\<close>

definition queued :: "SyncOperation \<Rightarrow> 'r \<Rightarrow> 'r world" where
  "queued op r =
     addToQueue (timestamp op) (op_type op) (entityType op) (localId op) (data op) (serverId op) (init r)"

text \<open>
  A create and a later update of the same session, the update enqueued while the
  session has no server identifier; and an update enqueued with one.
\<close>

definition update_after_create :: SyncOperation where
  "update_after_create =
     \<lparr>op_id = 2, op_type = UPDATE, entityType = Session, localId = ''local-1'', serverId = None,
      data = [(''status'', ''CLOSED'')], timestamp = 2000, attempts = 0, lastError = None\<rparr>"

definition both_queued :: "'r \<Rightarrow> 'r world" where
  "both_queued r =
     addToQueue 2000 UPDATE Session ''local-1'' [(''status'', ''CLOSED'')] None (queued create_session r)"

definition update_known :: SyncOperation where
  "update_known =
     \<lparr>op_id = 1, op_type = UPDATE, entityType = Session, localId = ''local-1'', serverId = Some ''srv-1'',
      data = [(''status'', ''CLOSED'')], timestamp = 1000, attempts = 0, lastError = None\<rparr>"

text \<open>
  A create of the session followed by an update that was enqueued with a server
  identifier; and three creates enqueued out of timestamp order.
\<close>

definition update_known_after :: SyncOperation where
  "update_known_after =
     \<lparr>op_id = 2, op_type = UPDATE, entityType = Session, localId = ''local-1'', serverId = Some ''srv-1'',
      data = [(''status'', ''CLOSED'')], timestamp = 2000, attempts = 0, lastError = None\<rparr>"

definition create_then_known :: "'r \<Rightarrow> 'r world" where
  "create_then_known r =
     addToQueue 2000 UPDATE Session ''local-1'' [(''status'', ''CLOSED'')] (Some ''srv-1'')
       (queued create_session r)"

definition three_queued :: "'r \<Rightarrow> 'r world" where
  "three_queued r =
     addToQueue 2000 CREATE Defect ''local-3'' [(''itemId'', ''i1'')] None
       (addToQueue 1000 CREATE Item ''local-2'' [(''sessionId'', ''s1'')] None
          (addToQueue 3000 CREATE Session ''local-1'' [] None (init r)))"

section \<open>Properties of the handlers and of the loop body\<close>

text \<open>The unfoldings that evaluate a concrete run.\<close>

lemmas concrete_defs = queued_def addToQueue_def init_def create_session_def update_session_def
  update_after_create_def both_queued_def update_known_def pending_entity_def item_delete_def
  api_down_def api_rejects_def update_known_after_def create_then_known_def

lemmas run_defs = processQueue_def orderBy_timestamp_def replay_def processOperation_def
  processSessionOperation_def processItemOperation_def processDefectOperation_def call_api_def
  catch_block_def queue_update_def queue_delete_def mark_synced_def Let_def

lemma processOperation_submitted:
  "submitted (snd (processOperation api op w)) = submitted w @ new_calls api op (remote w)"
  by (cases "entityType op"; cases "op_type op")
     (auto simp: processOperation_def processSessionOperation_def processItemOperation_def
        processDefectOperation_def call_api_def new_calls_def request_of_def Let_def
        split: option.splits outcome.splits prod.splits if_splits)

lemma processOperation_remote:
  "remote (snd (processOperation api op w)) =
     (case request_of op of None \<Rightarrow> remote w | Some req \<Rightarrow> snd (api (remote w) req))"
  by (cases "entityType op"; cases "op_type op")
     (auto simp: processOperation_def processSessionOperation_def processItemOperation_def
        processDefectOperation_def call_api_def request_of_def Let_def
        split: option.splits outcome.splits prod.splits if_splits)

lemma processOperation_queue:
  "syncQueue (db (snd (processOperation api op w))) = syncQueue (db w)"
  by (cases "entityType op"; cases "op_type op")
     (auto simp: processOperation_def processSessionOperation_def processItemOperation_def
        processDefectOperation_def call_api_def Let_def
        split: option.splits outcome.splits prod.splits if_splits)

lemma processOperation_attempted:
  "attempted (snd (processOperation api op w)) = attempted w"
  by (cases "entityType op"; cases "op_type op")
     (auto simp: processOperation_def processSessionOperation_def processItemOperation_def
        processDefectOperation_def call_api_def Let_def
        split: option.splits outcome.splits prod.splits if_splits)

lemma processOperation_Throws_db:
  "fst (processOperation api op w) = Throws e \<Longrightarrow> db (snd (processOperation api op w)) = db w"
  by (cases "entityType op"; cases "op_type op")
     (auto simp: processOperation_def processSessionOperation_def processItemOperation_def
        processDefectOperation_def call_api_def Let_def
        split: option.splits outcome.splits prod.splits if_splits)

lemma processOperation_no_request:
  "request_of op = None \<Longrightarrow> processOperation api op w = (Returns (), w)"
  by (cases "entityType op"; cases "op_type op")
     (auto simp: processOperation_def processSessionOperation_def processItemOperation_def
        processDefectOperation_def call_api_def request_of_def Let_def
        split: option.splits outcome.splits prod.splits if_splits)

lemma processOperation_outcome:
  "fst (processOperation api op w) =
     (case request_of op of
        None \<Rightarrow> Returns ()
      | Some req \<Rightarrow> (case fst (api (remote w) req) of Returns _ \<Rightarrow> Returns () | Throws e \<Rightarrow> Throws e))"
  by (cases "entityType op"; cases "op_type op")
     (auto simp: processOperation_def processSessionOperation_def processItemOperation_def
        processDefectOperation_def call_api_def request_of_def Let_def
        split: option.splits outcome.splits prod.splits if_splits)

lemma processOperation_flags:
  "isSyncing (snd (processOperation api op w)) = isSyncing w"
  "pendingCount (snd (processOperation api op w)) = pendingCount w"
  "syncQueue_next (db (snd (processOperation api op w))) = syncQueue_next (db w)"
  by (cases "entityType op"; cases "op_type op";
      auto simp: processOperation_def processSessionOperation_def processItemOperation_def
        processDefectOperation_def call_api_def Let_def
        split: option.splits outcome.splits prod.splits if_splits)+

lemma processOperation_not_CREATE_db:
  "op_type op \<noteq> CREATE \<Longrightarrow> db (snd (processOperation api op w)) = db w"
  by (cases "entityType op"; cases "op_type op")
     (auto simp: processOperation_def processSessionOperation_def processItemOperation_def
        processDefectOperation_def call_api_def Let_def
        split: option.splits outcome.splits prod.splits if_splits)

lemma processOperation_table_other:
  "entityType op \<noteq> k \<or> localId op \<noteq> l \<Longrightarrow>
     table k (db (snd (processOperation api op w))) l = table k (db w) l"
  by (cases "entityType op"; cases "op_type op"; cases k)
     (auto simp: processOperation_def processSessionOperation_def processItemOperation_def
        processDefectOperation_def call_api_def Let_def table_def
        split: option.splits outcome.splits prod.splits if_splits)

lemma processOperation_table_None:
  "table k (db (snd (processOperation api op w))) l = None \<longleftrightarrow> table k (db w) l = None"
  by (cases "entityType op"; cases "op_type op"; cases k)
     (auto simp: processOperation_def processSessionOperation_def processItemOperation_def
        processDefectOperation_def call_api_def Let_def table_def
        split: option.splits outcome.splits prod.splits if_splits)

lemma processOperation_CREATE_bound:
  assumes "op_type op = CREATE" "request_of op = Some req"
    and "fst (api (remote w) req) = Returns resp" "success resp" "response_data resp = Some d"
    and "table (entityType op) (db w) (localId op) = Some e"
  shows "table (entityType op) (db (snd (processOperation api op w))) (localId op)
           = Some (mark_synced (map_of d ''id'') e)"
  using assms
  by (cases "entityType op")
     (auto simp: processOperation_def processSessionOperation_def processItemOperation_def
        processDefectOperation_def call_api_def Let_def table_def request_of_def
        split: option.splits outcome.splits prod.splits if_splits)

lemma processOperation_CREATE_unbound:
  assumes "op_type op = CREATE" "request_of op = Some req"
    and "fst (api (remote w) req) = Returns resp"
    and "\<not> success resp \<or> response_data resp = None \<or> table (entityType op) (db w) (localId op) = None"
  shows "db (snd (processOperation api op w)) = db w"
  using assms
  by (cases "entityType op")
     (auto simp: processOperation_def processSessionOperation_def processItemOperation_def
        processDefectOperation_def call_api_def Let_def table_def request_of_def
        split: option.splits outcome.splits prod.splits if_splits)

lemma replay_alt:
  "replay api op w =
     (let p = processOperation api op (w\<lparr>attempted := attempted w @ [op]\<rparr>)
      in case fst p of
           Returns _ \<Rightarrow> (snd p)\<lparr>db := queue_delete (op_id op) (db (snd p))\<rparr>
         | Throws error \<Rightarrow> (snd p)\<lparr>db := catch_block op error (db (snd p))\<rparr>)"
  by (simp add: replay_def Let_def split: prod.splits outcome.splits)

lemma replay_submitted:
  "submitted (replay api op w) = submitted w @ new_calls api op (remote w)"
  by (simp add: replay_alt Let_def processOperation_submitted split: outcome.splits)

lemma replay_remote:
  "remote (replay api op w) =
     (case request_of op of None \<Rightarrow> remote w | Some req \<Rightarrow> snd (api (remote w) req))"
  by (simp add: replay_alt Let_def processOperation_remote split: outcome.splits option.splits)

lemma replay_attempted: "attempted (replay api op w) = attempted w @ [op]"
  by (simp add: replay_alt Let_def processOperation_attempted split: outcome.splits)

lemma replay_flags:
  "isSyncing (replay api op w) = isSyncing w"
  "pendingCount (replay api op w) = pendingCount w"
  by (simp_all add: replay_alt Let_def processOperation_flags split: outcome.splits)

lemma queue_delete_tables:
  "sessions (queue_delete k d) = sessions d"
  "items (queue_delete k d) = items d"
  "defects (queue_delete k d) = defects d"
  "table t (queue_delete k d) = table t d"
  by (simp_all add: queue_delete_def table_def split: EntityType.splits)

lemma catch_block_tables:
  "sessions (catch_block op e d) = sessions d"
  "items (catch_block op e d) = items d"
  "defects (catch_block op e d) = defects d"
  "table t (catch_block op e d) = table t d"
  by (simp_all add: catch_block_def queue_delete_def queue_update_def Let_def table_def
        split: EntityType.splits)

lemma replay_table:
  "table k (db (replay api op w)) = table k (db (snd (processOperation api op (w\<lparr>attempted := attempted w @ [op]\<rparr>))))"
  by (simp add: replay_alt Let_def queue_delete_tables catch_block_tables split: outcome.splits)

lemma replay_queue:
  "syncQueue (db (replay api op w)) =
     (case fst (processOperation api op (w\<lparr>attempted := attempted w @ [op]\<rparr>)) of
        Returns _ \<Rightarrow> filter (\<lambda>row. op_id row \<noteq> op_id op) (syncQueue (db w))
      | Throws e \<Rightarrow> syncQueue (catch_block op e (db w)))"
  by (simp add: replay_alt Let_def processOperation_queue queue_delete_def catch_block_def
        queue_update_def split: outcome.splits)

lemma filter_map_other:
  "filter (\<lambda>row. op_id row \<noteq> k)
      (map (\<lambda>row. if op_id row = k then row\<lparr>attempts := n, lastError := e\<rparr> else row) q)
     = filter (\<lambda>row. op_id row \<noteq> k) q"
  by (induction q) auto

lemma catch_block_frame:
  "filter (\<lambda>row. op_id row \<noteq> op_id op) (syncQueue (catch_block op e d))
     = filter (\<lambda>row. op_id row \<noteq> op_id op) (syncQueue d)"
  by (simp add: catch_block_def queue_update_def queue_delete_def Let_def filter_map_other)

lemma replay_frame:
  "filter (\<lambda>row. op_id row \<noteq> op_id op) (syncQueue (db (replay api op w)))
     = filter (\<lambda>row. op_id row \<noteq> op_id op) (syncQueue (db w))"
  by (simp add: replay_queue catch_block_frame split: outcome.splits)

section \<open>Properties of a drain cycle\<close>

lemma replay_next_remote: "remote (replay api op w) = next_remote api op (remote w)"
  by (simp add: replay_remote next_remote_def)

lemma drain_submitted:
  "submitted (drain api ops w) = submitted w @ drain_calls api ops (remote w)"
  by (induction ops arbitrary: w) (simp_all add: replay_submitted replay_next_remote)

lemma drain_attempted: "attempted (drain api ops w) = attempted w @ ops"
  by (induction ops arbitrary: w) (simp_all add: replay_attempted)

lemma drain_calls_ops:
  "map call_op (drain_calls api ops r) = filter (\<lambda>op. request_of op \<noteq> None) ops"
  by (induction ops arbitrary: r) (auto simp: new_calls_def split: option.splits)

lemma drain_calls_answers:
  "map call_outcome (drain_calls api ops r) = answers api r (map call_request (drain_calls api ops r))"
  by (induction ops arbitrary: r) (auto simp: new_calls_def next_remote_def split: option.splits)

lemma drain_remote:
  "remote (drain api ops w) = final_remote api (remote w) (map call_request (drain_calls api ops (remote w)))"
  by (induction ops arbitrary: w)
     (auto simp: replay_next_remote new_calls_def next_remote_def split: option.splits)

lemma processQueue_submitted:
  "submitted (processQueue False api w)
     = submitted w @ drain_calls api (orderBy_timestamp (syncQueue (db w))) (remote w)"
  by (simp add: processQueue_def Let_def drain_submitted)

lemma cycle_calls_eq:
  "cycle_calls api w = drain_calls api (orderBy_timestamp (syncQueue (db w))) (remote w)"
  by (simp add: cycle_calls_def processQueue_submitted)

lemma sorted_orderBy: "sorted (map timestamp (orderBy_timestamp q))"
  by (simp add: orderBy_timestamp_def)

lemma replay_no_request:
  "request_of op = None \<Longrightarrow>
     replay api op w = w\<lparr>attempted := attempted w @ [op], db := queue_delete (op_id op) (db w)\<rparr>"
  by (simp add: replay_def processOperation_no_request)

lemma set_orderBy: "set (orderBy_timestamp q) = set q"
  by (simp add: orderBy_timestamp_def)

lemma queue_update_ids:
  "map op_id (syncQueue (queue_update k n e d)) = map op_id (syncQueue d)"
  by (simp add: queue_update_def comp_def cong: map_cong)

lemma catch_block_ids:
  "op_id ` set (syncQueue (catch_block op e d)) \<subseteq> op_id ` set (syncQueue d)"
proof -
  have "set (map op_id (syncQueue (queue_update k n e d))) = set (map op_id (syncQueue d))" for k n
    by (simp only: queue_update_ids)
  then have upd: "op_id ` set (syncQueue (queue_update k n e d)) = op_id ` set (syncQueue d)" for k n
    by simp
  have del: "op_id ` set (syncQueue (queue_delete k d')) \<subseteq> op_id ` set (syncQueue d')" for k d'
    by (auto simp: queue_delete_def)
  show ?thesis
    using upd del [of "op_id op" "queue_update (op_id op) (attempts op + 1) e d"]
    by (simp add: catch_block_def Let_def)
qed

lemma replay_queue_ids:
  "op_id ` set (syncQueue (db (replay api op w))) \<subseteq> op_id ` set (syncQueue (db w))"
  using catch_block_ids [of op _ "db w"]
  by (auto simp: replay_queue split: outcome.splits)

lemma drain_queue_ids:
  "op_id ` set (syncQueue (db (drain api ops w))) \<subseteq> op_id ` set (syncQueue (db w))"
proof (induction ops arbitrary: w)
  case Nil
  show ?case by simp
next
  case (Cons op ops)
  have "op_id ` set (syncQueue (db (drain api ops (replay api op w))))
          \<subseteq> op_id ` set (syncQueue (db (replay api op w)))"
    by (rule Cons.IH)
  also have "\<dots> \<subseteq> op_id ` set (syncQueue (db w))"
    by (rule replay_queue_ids)
  finally show ?case by simp
qed

lemma drain_removes_skipped:
  "op \<in> set ops \<Longrightarrow> request_of op = None \<Longrightarrow>
     op_id op \<notin> op_id ` set (syncQueue (db (drain api ops w)))"
proof (induction ops arbitrary: w)
  case Nil
  then show ?case by simp
next
  case (Cons a ops)
  show ?case
  proof (cases "op \<in> set ops")
    case True
    then show ?thesis using Cons.IH [OF True Cons.prems(2)] by simp
  next
    case False
    with Cons.prems(1) have a: "a = op" by simp
    have "op_id op \<notin> op_id ` set (syncQueue (db (replay api op w)))"
      using Cons.prems(2) by (auto simp: replay_no_request queue_delete_def)
    then show ?thesis
      using drain_queue_ids [of api ops "replay api op w"] a by auto
  qed
qed

lemma skipped_request:
  "op_type op = UPDATE \<or> op_type op = DELETE \<Longrightarrow> serverId op = None \<or> serverId op = Some [] \<Longrightarrow>
     request_of op = None"
  by (cases "entityType op") (auto simp: request_of_def)

subsection \<open>What a cycle submits, and the entities it does not write\<close>

lemma drain_table_untouched:
  "\<forall>op \<in> set ops. \<not> (op_type op = CREATE \<and> entityType op = k \<and> localId op = l) \<Longrightarrow>
     table k (db (drain api ops w)) l = table k (db w) l"
proof (induction ops arbitrary: w)
  case Nil
  show ?case by simp
next
  case (Cons op ops)
  let ?w = "w\<lparr>attempted := attempted w @ [op]\<rparr>"
  from Cons.prems have hd: "\<not> (op_type op = CREATE \<and> entityType op = k \<and> localId op = l)"
    and tl: "\<forall>x \<in> set ops. \<not> (op_type x = CREATE \<and> entityType x = k \<and> localId x = l)"
    by simp_all
  have "table k (db (snd (processOperation api op ?w))) l = table k (db ?w) l"
  proof (cases "op_type op = CREATE")
    case True
    with hd have "entityType op \<noteq> k \<or> localId op \<noteq> l" by simp
    then show ?thesis by (rule processOperation_table_other)
  next
    case False
    then show ?thesis by (simp add: processOperation_not_CREATE_db)
  qed
  then have "table k (db (replay api op w)) l = table k (db w) l"
    by (simp add: replay_table)
  then show ?case
    using Cons.IH [OF tl, of "replay api op w"] by simp
qed

lemma drain_calls_requests:
  "map call_request (drain_calls api ops r) = List.map_filter request_of ops"
  by (induction ops arbitrary: r) (auto simp: new_calls_def map_filter_simps split: option.splits)

subsection \<open>A collaborator that always succeeds\<close>

lemma create_request:
  "op_type op = CREATE \<Longrightarrow> \<exists>path. request_of op = Some (Post path (data op))"
  by (cases "entityType op") (auto simp: request_of_def)

lemma always_succeeds_returns:
  "always_succeeds api \<Longrightarrow> \<exists>response. fst (api r req) = Returns response"
  unfolding always_succeeds_def by blast

lemma always_succeeds_create:
  "always_succeeds api \<Longrightarrow>
     \<exists>response d sid. fst (api r (Post path body)) = Returns response \<and> success response \<and>
        response_data response = Some d \<and> map_of d ''id'' = Some sid"
  unfolding always_succeeds_def by (metis is_post.simps(1))

lemma always_succeeds_outcome:
  assumes "always_succeeds api"
  shows "fst (processOperation api op w) = Returns ()"
proof (cases "request_of op")
  case None
  then show ?thesis by (simp add: processOperation_outcome)
next
  case (Some req)
  from always_succeeds_returns [OF assms, of "remote w" req]
  obtain response where "fst (api (remote w) req) = Returns response" ..
  with Some show ?thesis by (simp add: processOperation_outcome)
qed

lemma drain_queue_all_succeed:
  "always_succeeds api \<Longrightarrow>
     syncQueue (db (drain api ops w)) = filter (\<lambda>row. op_id row \<notin> op_id ` set ops) (syncQueue (db w))"
proof (induction ops arbitrary: w)
  case Nil
  show ?case by simp
next
  case (Cons op ops)
  have "syncQueue (db (replay api op w)) = filter (\<lambda>row. op_id row \<noteq> op_id op) (syncQueue (db w))"
    using always_succeeds_outcome [OF Cons.prems] by (simp add: replay_queue)
  then show ?case
    using Cons.IH [OF Cons.prems, of "replay api op w"]
    by (auto intro: filter_cong)
qed

lemma assigned_ids_append:
  "assigned_ids k l (xs @ ys) = assigned_ids k l xs @ assigned_ids k l ys"
  by (simp add: assigned_ids_def map_filter_def)

lemma mark_synced_twice: "mark_synced a (mark_synced b e) = mark_synced a e"
  by (simp add: mark_synced_def)

lemma replay_binds:
  assumes ok: "always_succeeds api" and e: "table k (db w) l = Some e"
  shows "table k (db (replay api op w)) l
           = Some (foldl (\<lambda>e sid. mark_synced (Some sid) e) e
                     (assigned_ids k l (new_calls api op (remote w))))"
proof (cases "op_type op = CREATE \<and> entityType op = k \<and> localId op = l")
  case True
  let ?w = "w\<lparr>attempted := attempted w @ [op]\<rparr>"
  from True create_request [of op] obtain path where path: "request_of op = Some (Post path (data op))"
    by blast
  define req where "req = Post path (data op)"
  have req: "request_of op = Some req"
    using path by (simp add: req_def)
  from always_succeeds_create [OF ok, of "remote w" path "data op"]
  obtain response d sid where r: "fst (api (remote w) req) = Returns response"
      "success response" "response_data response = Some d" "map_of d ''id'' = Some sid"
    unfolding req_def by blast
  have ids: "assigned_ids k l (new_calls api op (remote w)) = [sid]"
    using True req r by (simp add: assigned_ids_def new_calls_def created_id_def)
  have "table (entityType op) (db (snd (processOperation api op ?w))) (localId op)
          = Some (mark_synced (map_of d ''id'') e)"
    using True req r e
    by (intro processOperation_CREATE_bound [of op req api ?w response d e]) simp_all
  then show ?thesis
    using True ids r by (simp add: replay_table)
next
  case False
  let ?w = "w\<lparr>attempted := attempted w @ [op]\<rparr>"
  have ids: "assigned_ids k l (new_calls api op (remote w)) = []"
    using False by (auto simp: assigned_ids_def new_calls_def created_id_def split: option.splits)
  have "table k (db (snd (processOperation api op ?w))) l = table k (db ?w) l"
  proof (cases "op_type op = CREATE")
    case True
    with False have "entityType op \<noteq> k \<or> localId op \<noteq> l" by simp
    then show ?thesis by (rule processOperation_table_other)
  next
    case False
    then show ?thesis by (simp add: processOperation_not_CREATE_db)
  qed
  then show ?thesis
    using ids e by (simp add: replay_table)
qed

lemma drain_binds:
  assumes ok: "always_succeeds api"
  shows "table k (db w) l = Some e \<Longrightarrow>
         table k (db (drain api ops w)) l
           = Some (foldl (\<lambda>e sid. mark_synced (Some sid) e) e
                     (assigned_ids k l (drain_calls api ops (remote w))))"
proof (induction ops arbitrary: w e)
  case Nil
  then show ?case by (simp add: assigned_ids_def)
next
  case (Cons op ops)
  show ?case
    using Cons.IH [OF replay_binds [OF ok Cons.prems, of op]]
    by (simp add: assigned_ids_append replay_next_remote)
qed

lemma foldl_mark_synced:
  "ids \<noteq> [] \<Longrightarrow> foldl (\<lambda>e sid. mark_synced (Some sid) e) e ids = mark_synced (Some (last ids)) e"
  by (induction ids arbitrary: e) (auto simp: mark_synced_twice)

lemma drain_calls_assign:
  assumes ok: "always_succeeds api"
  shows "op \<in> set ops \<Longrightarrow> op_type op = CREATE \<Longrightarrow>
         assigned_ids (entityType op) (localId op) (drain_calls api ops r) \<noteq> []"
proof (induction ops arbitrary: r)
  case Nil
  then show ?case by simp
next
  case (Cons a ops)
  show ?case
  proof (cases "a = op")
    case True
    from Cons.prems(2) create_request [of op] obtain path
      where path: "request_of op = Some (Post path (data op))"
      by blast
    define req where "req = Post path (data op)"
    have req: "request_of op = Some req"
      using path by (simp add: req_def)
    from always_succeeds_create [OF ok, of r path "data op"]
    obtain response d sid where r: "fst (api r req) = Returns response"
        "success response" "response_data response = Some d" "map_of d ''id'' = Some sid"
      unfolding req_def by blast
    have "assigned_ids (entityType op) (localId op) (new_calls api op r) = [sid]"
      using Cons.prems(2) req r by (simp add: assigned_ids_def new_calls_def created_id_def)
    then show ?thesis
      using True by (simp add: assigned_ids_append)
  next
    case False
    with Cons.prems(1) have "op \<in> set ops" by simp
    then show ?thesis
      using Cons.IH [OF _ Cons.prems(2)] by (simp add: assigned_ids_append)
  qed
qed

lemma always_succeeds_api_ok: "always_succeeds api_ok"
  unfolding always_succeeds_def
proof (intro allI)
  fix r :: "string list" and req
  show "\<exists>response. fst (api_ok r req) = Returns response \<and> success response \<and>
          (is_post req \<longrightarrow> (\<exists>d sid. response_data response = Some d \<and> map_of d ''id'' = Some sid))"
    by (cases r; cases req) simp_all
qed

subsection \<open>A failed attempt, and the guard\<close>

text \<open>
  The queue after a pass whose remote call throws: the row is deleted when the attempt
  count read in the snapshot is already 5 or more, and otherwise it is kept with that
  count plus one and the error string.
\<close>

lemma replay_failure_queue:
  assumes "request_of op = Some req" and "fst (api (remote w) req) = Throws e"
  shows "syncQueue (db (replay api op w)) =
           (if 5 \<le> attempts op
            then filter (\<lambda>row. op_id row \<noteq> op_id op) (syncQueue (db w))
            else map (\<lambda>row. if op_id row = op_id op
                             then row\<lparr>attempts := attempts op + 1, lastError := Some e\<rparr> else row)
                   (syncQueue (db w)))"
  using assms
  by (simp add: replay_queue processOperation_outcome catch_block_def queue_update_def
        queue_delete_def Let_def filter_map_other)

text \<open>A call whose callback captured \<^verbatim>\<open>isSyncing = true\<close> returns at once.\<close>

lemma processQueue_guard: "processQueue True api w = w"
  by (simp add: processQueue_def)

section \<open>The claims\<close>

text \<open>
  Claim C1, as the code has it. An UPDATE or DELETE row that carries no server
  identifier (\<^verbatim>\<open>op.serverId\<close> undefined or empty; the handlers consult nothing else)
  is never submitted: the pass over it makes no remote call and leaves the remote
  collaborator as it was. The handler returns normally, so the loop deletes the row:
  after the pass, and after a whole drain cycle over a queue that holds it, no row with
  its key is left. It does not stay queued.
\<close>

theorem C1_skipped_operation_is_removed:
  assumes "op_type op = UPDATE \<or> op_type op = DELETE"
    and "serverId op = None \<or> serverId op = Some []"
  shows "replay api op w = w\<lparr>attempted := attempted w @ [op], db := queue_delete (op_id op) (db w)\<rparr> \<and>
         (op \<in> set (syncQueue (db w)) \<longrightarrow>
            op \<notin> call_op ` set (cycle_calls api w) \<and>
            op_id op \<notin> op_id ` set (syncQueue (db (processQueue False api w))))"
proof -
  have none: "request_of op = None"
    using assms by (rule skipped_request)
  have "set (map call_op (cycle_calls api w)) \<subseteq> {x. request_of x \<noteq> None}"
    by (auto simp: cycle_calls_eq drain_calls_ops)
  then have nocall: "op \<notin> call_op ` set (cycle_calls api w)"
    using none by auto
  have "op \<in> set (syncQueue (db w)) \<Longrightarrow>
          op_id op \<notin> op_id ` set (syncQueue (db (processQueue False api w)))"
    using drain_removes_skipped [of op "orderBy_timestamp (syncQueue (db w))" api "w\<lparr>isSyncing := True\<rparr>"] none
    by (simp add: processQueue_def Let_def set_orderBy)
  with nocall none show ?thesis
    by (simp add: replay_no_request)
qed

theorem C1_witness:
  "(op_type update_session = UPDATE \<or> op_type update_session = DELETE) \<and>
   (serverId update_session = None \<or> serverId update_session = Some []) \<and>
   update_session \<in> set (syncQueue (db (queued update_session ()))) \<and>
   submitted (replay api_down update_session (queued update_session ())) = [] \<and>
   syncQueue (db (replay api_down update_session (queued update_session ()))) = [] \<and>
   update_session \<notin> call_op ` set (cycle_calls api_down (queued update_session ())) \<and>
   op_id update_session \<notin> op_id ` set (syncQueue (db (processQueue False api_down (queued update_session ()))))"
proof -
  have q: "syncQueue (db (queued update_session ())) = [update_session]"
    by (simp add: queued_def addToQueue_def init_def update_session_def)
  have h1: "op_type update_session = UPDATE \<or> op_type update_session = DELETE"
    by (simp add: update_session_def)
  have h2: "serverId update_session = None \<or> serverId update_session = Some []"
    by (simp add: update_session_def)
  have s0: "submitted (queued update_session ()) = []"
    by (simp add: queued_def addToQueue_def init_def)
  show ?thesis
    using C1_skipped_operation_is_removed [OF h1 h2, of api_down "queued update_session ()"] h1 h2 q s0
    by (simp add: queue_delete_def update_session_def)
qed

text \<open>
  The specification's sentence fails on this run: the update of \<^verbatim>\<open>local-1\<close> is enqueued
  without a server identifier while the store has none for the session, and one drain
  cycle leaves the queue empty instead of keeping the row.
\<close>

theorem C1_counterexample:
  "op_type update_session = UPDATE \<and> serverId update_session = None \<and>
   spec_resolve (db (queued update_session ())) Session ''local-1'' = None \<and>
   syncQueue (db (queued update_session ())) = [update_session] \<and>
   syncQueue (db (processQueue False api_down (queued update_session ()))) = []"
  by (simp add: queued_def addToQueue_def init_def update_session_def spec_resolve_def table_def
        pending_entity_def processQueue_def orderBy_timestamp_def replay_def processOperation_def
        processSessionOperation_def queue_delete_def)

text \<open>
  Claim C2, evaluated on the code. A CREATE is enqueued and the collaborator throws at
  every call. After five drain cycles, that is five consecutive failed attempts, the row
  is still queued, with attempt count 5 and the error string; the sixth failure deletes
  it. The test \<^verbatim>\<open>op.attempts >= 5\<close> reads the count of the snapshot, from before the
  increment just written.
\<close>

theorem C2_five_failures_keep_the_operation:
  "syncQueue (db (queued create_session ())) = [create_session] \<and>
   syncQueue (db ((processQueue False api_down ^^ 5) (queued create_session ())))
     = [create_session\<lparr>attempts := 5, lastError := Some ''Error: Network Error''\<rparr>] \<and>
   syncQueue (db ((processQueue False api_down ^^ 6) (queued create_session ()))) = []"
  by (simp add: concrete_defs run_defs eval_nat_numeral)

text \<open>
  Claim C3, as the code has it. The server identifier in the request of an UPDATE or
  DELETE replay is the \<^verbatim>\<open>serverId\<close> stored in the queued row, which is the argument
  given to \<^verbatim>\<open>addToQueue\<close>: with none, or with an empty one, or for a pair without a
  handler case, no request is made; otherwise the request goes to the endpoint of the
  entity kind followed by that stored value. The local store is not consulted: the
  right-hand side does not mention it.
\<close>

theorem C3_uses_captured_serverId:
  assumes "op_type op \<noteq> CREATE"
  shows "map call_request (drop (length (submitted w)) (submitted (replay api op w))) =
           (case serverId op of
              None \<Rightarrow> []
            | Some s \<Rightarrow>
                if s = [] \<or> no_handler (entityType op) (op_type op) then []
                else [if op_type op = UPDATE then Patch (endpoint (entityType op) @ s) (data op)
                      else Delete (endpoint (entityType op) @ s)]) \<and>
         serverId (last (syncQueue (db (addToQueue now t k l p sid w)))) = sid"
  using assms
  by (cases "entityType op"; cases "op_type op")
     (auto simp: replay_submitted new_calls_def request_of_def no_handler_def endpoint_def
        addToQueue_def split: option.splits)

theorem C3_witness:
  "op_type update_known \<noteq> CREATE \<and>
   map call_request (drop (length (submitted (queued update_known ([]::string list))))
       (submitted (replay api_ok update_known (queued update_known []))))
     = [Patch ''/sessions/srv-1'' [(''status'', ''CLOSED'')]] \<and>
   serverId (last (syncQueue (db (addToQueue 2000 DELETE Session ''local-1'' [] (Some ''srv-1'')
       (queued update_known ([]::string list))))))
     = Some ''srv-1''"
proof -
  have h: "op_type update_known \<noteq> CREATE"
    by (simp add: update_known_def)
  have f: "serverId update_known = Some ''srv-1''" "entityType update_known = Session"
      "op_type update_known = UPDATE" "data update_known = [(''status'', ''CLOSED'')]"
    by (simp_all add: update_known_def)
  show ?thesis
    using C3_uses_captured_serverId [OF h, of "queued update_known []" api_ok
        2000 DELETE Session "''local-1''" "[]" "Some ''srv-1''"] h f
    by (simp add: no_handler_def endpoint_def)
qed

text \<open>
  The specification's sentence fails on this run: the create and then the update of
  \<^verbatim>\<open>local-1\<close> are enqueued, the update without a server identifier. When the update is
  replayed the store resolves \<^verbatim>\<open>local-1\<close> to \<^verbatim>\<open>srv-1\<close>, yet the replay sends nothing:
  the only request of the cycle is the create, and the update is gone from the queue.
\<close>

theorem C3_counterexample:
  "syncQueue (db (both_queued [''srv-1''])) = [create_session, update_after_create] \<and>
   serverId update_after_create = None \<and>
   spec_resolve (db (replay api_ok create_session (both_queued [''srv-1'']))) Session ''local-1''
     = Some ''srv-1'' \<and>
   submitted (replay api_ok update_after_create (replay api_ok create_session (both_queued [''srv-1''])))
     = submitted (replay api_ok create_session (both_queued [''srv-1''])) \<and>
   map call_request (submitted (processQueue False api_ok (both_queued [''srv-1''])))
     = [Post ''/sessions'' [(''productId'', ''p1'')]] \<and>
   syncQueue (db (processQueue False api_ok (both_queued [''srv-1'']))) = []"
  by (simp add: concrete_defs run_defs spec_resolve_def table_def)

text \<open>
  Claim C4, as the code has it. When the remote call of a replay throws, whatever the
  attempt count, the database afterwards is the one before with the catch block applied:
  only the queue changes, and the three entity tables are as they were. The entity keeps
  the sync status it had; it is not set to \<^verbatim>\<open>error\<close>, not rolled back and not marked
  \<^verbatim>\<open>synced\<close>.
\<close>

theorem C4_failure_leaves_entities:
  assumes "submitted (replay api op w) = submitted w @ [c]"
    and "call_outcome c = Throws error"
  shows "db (replay api op w) = catch_block op error (db w) \<and>
         table k (db (replay api op w)) = table k (db w)"
proof -
  let ?w = "w\<lparr>attempted := attempted w @ [op]\<rparr>"
  from assms(1) have "new_calls api op (remote w) = [c]"
    by (simp add: replay_submitted)
  then obtain req where req: "request_of op = Some req"
    and c: "c = \<lparr>call_op = op, call_request = req, call_outcome = fst (api (remote w) req)\<rparr>"
    by (auto simp: new_calls_def split: option.splits)
  from c assms(2) have thr: "fst (api (remote w) req) = Throws error"
    by simp
  have out: "fst (processOperation api op ?w) = Throws error"
    using req thr by (simp add: processOperation_outcome)
  have same: "db (snd (processOperation api op ?w)) = db w"
    using processOperation_Throws_db [OF out] by simp
  have "db (replay api op w) = catch_block op error (db w)"
    using out same by (simp add: replay_alt Let_def)
  then show ?thesis
    by (simp add: catch_block_tables)
qed

theorem C4_witness:
  "submitted (replay api_down create_session (queued create_session ()))
     = submitted (queued create_session ()) @
       [\<lparr>call_op = create_session, call_request = Post ''/sessions'' [(''productId'', ''p1'')],
         call_outcome = Throws ''Error: Network Error''\<rparr>] \<and>
   db (replay api_down create_session (queued create_session ()))
     = catch_block create_session ''Error: Network Error'' (db (queued create_session ())) \<and>
   table Session (db (replay api_down create_session (queued create_session ()))) ''local-1''
     = Some pending_entity"
proof -
  let ?c = "\<lparr>call_op = create_session, call_request = Post ''/sessions'' [(''productId'', ''p1'')],
         call_outcome = Throws ''Error: Network Error''\<rparr>"
  have h1: "submitted (replay api_down create_session (queued create_session ()))
     = submitted (queued create_session ()) @ [?c]"
    by (simp add: replay_submitted new_calls_def request_of_def create_session_def api_down_def)
  have h2: "call_outcome ?c = Throws ''Error: Network Error''"
    by simp
  have t: "table Session (db (queued create_session ())) ''local-1'' = Some pending_entity"
    by (simp add: table_def queued_def addToQueue_def init_def)
  show ?thesis
    using C4_failure_leaves_entities [OF h1 h2, of Session] h1 t
    by (simp add: catch_block_tables)
qed

text \<open>
  The specification's sentence fails on this run: the create of the pending session
  \<^verbatim>\<open>local-1\<close> fails once; the row stays queued with attempt count 1, and the session is
  still \<^verbatim>\<open>pending\<close>, not \<^verbatim>\<open>error\<close>.
\<close>

theorem C4_counterexample:
  "syncQueue (db (queued create_session ())) = [create_session] \<and>
   sessions (db (queued create_session ())) ''local-1'' = Some pending_entity \<and>
   syncQueue (db (processQueue False api_down (queued create_session ())))
     = [create_session\<lparr>attempts := 1, lastError := Some ''Error: Network Error''\<rparr>] \<and>
   map_option syncStatus (sessions (db (processQueue False api_down (queued create_session ()))) ''local-1'')
     = Some Pending"
  by (simp add: concrete_defs run_defs)

text \<open>
  Claim C5, as the code has it. If every remote call returns a successful response with
  an identifier, then after one drain cycle the queue is empty and the pending count is
  zero; and every entity that is in the local store and has a CREATE row in the queue
  ends with sync status \<^verbatim>\<open>synced\<close> and carries the identifier that the server assigned
  in answer to the last create call made for it, its other fields unchanged. An entity
  for which the queue holds no CREATE row, so one that has UPDATE or DELETE rows only,
  is after the cycle exactly as it was before: it keeps the sync status it had.
\<close>

theorem C5_all_succeed:
  assumes "always_succeeds api"
  shows "syncQueue (db (processQueue False api w)) = [] \<and>
         pendingCount (processQueue False api w) = 0 \<and>
         (\<forall>op \<in> set (syncQueue (db w)). \<forall>e.
            op_type op = CREATE \<and> table (entityType op) (db w) (localId op) = Some e \<longrightarrow>
              assigned_ids (entityType op) (localId op) (cycle_calls api w) \<noteq> [] \<and>
              table (entityType op) (db (processQueue False api w)) (localId op)
                = Some (e\<lparr>entity_id := Some (last (assigned_ids (entityType op) (localId op) (cycle_calls api w))),
                          syncStatus := Synced\<rparr>)) \<and>
         (\<forall>k l. (\<forall>op \<in> set (syncQueue (db w)).
                    \<not> (op_type op = CREATE \<and> entityType op = k \<and> localId op = l)) \<longrightarrow>
                 table k (db (processQueue False api w)) l = table k (db w) l)"
proof -
  let ?snap = "orderBy_timestamp (syncQueue (db w))"
  let ?w = "w\<lparr>isSyncing := True\<rparr>"
  have dbq: "db (processQueue False api w) = db (drain api ?snap ?w)"
    by (simp add: processQueue_def Let_def)
  have "syncQueue (db (drain api ?snap ?w))
          = filter (\<lambda>row. op_id row \<notin> op_id ` set ?snap) (syncQueue (db ?w))"
    using assms by (rule drain_queue_all_succeed)
  then have empty: "syncQueue (db (drain api ?snap ?w)) = []"
    by (simp add: set_orderBy)
  have cnt: "pendingCount (processQueue False api w) = 0"
    using empty by (simp add: processQueue_def Let_def)
  have ent: "assigned_ids (entityType op) (localId op) (cycle_calls api w) \<noteq> [] \<and>
        table (entityType op) (db (processQueue False api w)) (localId op)
          = Some (e\<lparr>entity_id := Some (last (assigned_ids (entityType op) (localId op) (cycle_calls api w))),
                    syncStatus := Synced\<rparr>)"
    if op: "op \<in> set (syncQueue (db w))" and cr: "op_type op = CREATE"
      and e: "table (entityType op) (db w) (localId op) = Some e" for op e
  proof -
    have ne: "assigned_ids (entityType op) (localId op) (cycle_calls api w) \<noteq> []"
      using drain_calls_assign [OF assms, of op ?snap "remote w"] op cr
      by (simp add: cycle_calls_eq set_orderBy)
    have "table (entityType op) (db ?w) (localId op) = Some e"
      using e by simp
    from drain_binds [OF assms this, of ?snap]
    have "table (entityType op) (db (drain api ?snap ?w)) (localId op)
            = Some (foldl (\<lambda>e sid. mark_synced (Some sid) e) e
                     (assigned_ids (entityType op) (localId op) (cycle_calls api w)))"
      by (simp add: cycle_calls_eq)
    then show ?thesis
      using ne foldl_mark_synced [OF ne, of e] by (simp add: dbq mark_synced_def)
  qed
  have keep: "table k (db (processQueue False api w)) l = table k (db w) l"
    if "\<forall>op \<in> set (syncQueue (db w)). \<not> (op_type op = CREATE \<and> entityType op = k \<and> localId op = l)"
    for k l
    using drain_table_untouched [of ?snap k l api ?w] that
    by (simp add: dbq set_orderBy)
  have first: "syncQueue (db (processQueue False api w)) = []"
    using empty by (simp add: dbq)
  show ?thesis
    using first cnt ent keep by blast
qed

theorem C5_witness:
  "always_succeeds api_ok \<and>
   syncQueue (db (both_queued [''srv-1''])) = [create_session, update_after_create] \<and>
   syncQueue (db (processQueue False api_ok (both_queued [''srv-1'']))) = [] \<and>
   pendingCount (processQueue False api_ok (both_queued [''srv-1''])) = 0 \<and>
   table Session (db (processQueue False api_ok (both_queued [''srv-1'']))) ''local-1''
     = Some (pending_entity\<lparr>entity_id := Some ''srv-1'', syncStatus := Synced\<rparr>) \<and>
   syncQueue (db (queued update_known ([]::string list))) = [update_known] \<and>
   table Session (db (processQueue False api_ok (queued update_known []))) ''local-1''
     = Some pending_entity"
proof -
  let ?w = "both_queued [''srv-1'']"
  let ?v = "queued update_known ([]::string list)"
  have q2: "syncQueue (db ?v) = [update_known]"
    by (simp add: concrete_defs)
  have t2: "table Session (db ?v) ''local-1'' = Some pending_entity"
    by (simp add: table_def concrete_defs)
  have f2: "op_type update_known = UPDATE"
    by (simp add: update_known_def)
  have "\<forall>op \<in> set (syncQueue (db ?v)).
          \<not> (op_type op = CREATE \<and> entityType op = Session \<and> localId op = ''local-1'')"
    using q2 f2 by simp
  with C5_all_succeed [OF always_succeeds_api_ok, of ?v]
  have kept: "table Session (db (processQueue False api_ok ?v)) ''local-1'' = Some pending_entity"
    using t2 by simp
  have q: "syncQueue (db ?w) = [create_session, update_after_create]"
    by (simp add: concrete_defs)
  have t: "table Session (db ?w) ''local-1'' = Some pending_entity"
    by (simp add: table_def concrete_defs)
  have cs: "assigned_ids Session ''local-1'' (cycle_calls api_ok ?w) = [''srv-1'']"
    by (simp add: cycle_calls_eq q orderBy_timestamp_def new_calls_def request_of_def
          next_remote_def assigned_ids_def created_id_def create_session_def update_after_create_def
          both_queued_def queued_def addToQueue_def init_def)
  have f: "op_type create_session = CREATE" "entityType create_session = Session"
      "localId create_session = ''local-1''"
    by (simp_all add: create_session_def)
  show ?thesis
    using C5_all_succeed [OF always_succeeds_api_ok, of ?w] always_succeeds_api_ok q t cs f q2 kept
    by simp
qed

text \<open>
  The specification's sentence fails on this run: the collaborator always succeeds and
  the queue holds an update of the pending session \<^verbatim>\<open>local-1\<close>. The cycle sends the
  PATCH and empties the queue, and the session is still \<^verbatim>\<open>pending\<close>.
\<close>

theorem C5_counterexample:
  "always_succeeds api_ok \<and>
   syncQueue (db (queued update_known [])) = [update_known] \<and>
   map call_request (submitted (processQueue False api_ok (queued update_known [])))
     = [Patch ''/sessions/srv-1'' [(''status'', ''CLOSED'')]] \<and>
   syncQueue (db (processQueue False api_ok (queued update_known []))) = [] \<and>
   map_option syncStatus (sessions (db (processQueue False api_ok (queued update_known []))) ''local-1'')
     = Some Pending"
  using always_succeeds_api_ok
  by (simp add: concrete_defs run_defs)

text \<open>
  Claim C6. The remote calls of one drain cycle are made for operations of the snapshot
  \<^verbatim>\<open>orderBy('timestamp').toArray()\<close> read at the start, in the order of the snapshot
  (a subsequence of it), which is sorted by timestamp, so the calls are in non-decreasing
  order of their operations' timestamps. They are made one at a time: every answer is
  the collaborator's answer in the state that the previous call left, and the
  collaborator ends in the state reached by feeding it the requests one after the other.
\<close>

theorem C6_sequential_in_timestamp_order:
  "submitted (processQueue False api w) = submitted w @ cycle_calls api w \<and>
   subseq (map call_op (cycle_calls api w)) (orderBy_timestamp (syncQueue (db w))) \<and>
   sorted (map timestamp (orderBy_timestamp (syncQueue (db w)))) \<and>
   sorted (map (\<lambda>c. timestamp (call_op c)) (cycle_calls api w)) \<and>
   map call_outcome (cycle_calls api w) = answers api (remote w) (map call_request (cycle_calls api w)) \<and>
   remote (processQueue False api w) = final_remote api (remote w) (map call_request (cycle_calls api w))"
proof -
  let ?snap = "orderBy_timestamp (syncQueue (db w))"
  have ops: "map call_op (cycle_calls api w) = filter (\<lambda>op. request_of op \<noteq> None) ?snap"
    by (simp add: cycle_calls_eq drain_calls_ops)
  have "sorted (map timestamp (filter (\<lambda>op. request_of op \<noteq> None) ?snap))"
    using sorted_orderBy by (rule sorted_filter)
  then have "sorted (map timestamp (map call_op (cycle_calls api w)))"
    by (simp only: ops)
  then have srt: "sorted (map (\<lambda>c. timestamp (call_op c)) (cycle_calls api w))"
    by (simp add: comp_def)
  have sub: "subseq (map call_op (cycle_calls api w)) ?snap"
    by (simp only: ops subseq_filter_left)
  have rem: "remote (processQueue False api w)
      = final_remote api (remote w) (map call_request (cycle_calls api w))"
    by (simp add: processQueue_def Let_def drain_remote cycle_calls_eq)
  show ?thesis
    using srt sub rem sorted_orderBy
    by (simp add: processQueue_submitted cycle_calls_eq drain_calls_answers)
qed

text \<open>
  On this run three creates are enqueued with the timestamps 3000, 1000 and 2000, in that
  order; the cycle submits them in the order 1000, 2000, 3000, and the collaborator
  hands out its three identifiers in that order.
\<close>

theorem C6_witness:
  "map timestamp (syncQueue (db (three_queued [''a'', ''b'', ''c'']))) = [3000, 1000, 2000] \<and>
   map (\<lambda>c. timestamp (call_op c)) (cycle_calls api_ok (three_queued [''a'', ''b'', ''c'']))
     = [1000, 2000, 3000] \<and>
   sorted (map (\<lambda>c. timestamp (call_op c)) (cycle_calls api_ok (three_queued [''a'', ''b'', ''c'']))) \<and>
   map call_request (cycle_calls api_ok (three_queued [''a'', ''b'', ''c'']))
     = [Post ''/sessions/s1/items'' [(''sessionId'', ''s1'')],
        Post ''/sessions/items/i1/defects'' [(''itemId'', ''i1'')],
        Post ''/sessions'' []] \<and>
   map call_outcome (cycle_calls api_ok (three_queued [''a'', ''b'', ''c'']))
     = [Returns \<lparr>success = True, response_data = Some [(''id'', ''a'')]\<rparr>,
        Returns \<lparr>success = True, response_data = Some [(''id'', ''b'')]\<rparr>,
        Returns \<lparr>success = True, response_data = Some [(''id'', ''c'')]\<rparr>] \<and>
   remote (processQueue False api_ok (three_queued [''a'', ''b'', ''c''])) = []"
proof -
  let ?w = "three_queued [''a'', ''b'', ''c'']"
  have q: "map timestamp (syncQueue (db ?w)) = [3000, 1000, 2000]"
    by (simp add: three_queued_def addToQueue_def init_def)
  have ts: "map (\<lambda>c. timestamp (call_op c)) (cycle_calls api_ok ?w) = [1000, 2000, 3000]"
    by (simp add: cycle_calls_eq three_queued_def addToQueue_def init_def orderBy_timestamp_def
          new_calls_def next_remote_def request_of_def template_field_def)
  have rq: "map call_request (cycle_calls api_ok ?w)
     = [Post ''/sessions/s1/items'' [(''sessionId'', ''s1'')],
        Post ''/sessions/items/i1/defects'' [(''itemId'', ''i1'')],
        Post ''/sessions'' []]"
    by (simp add: cycle_calls_eq three_queued_def addToQueue_def init_def orderBy_timestamp_def
          new_calls_def next_remote_def request_of_def template_field_def)
  have r: "remote ?w = [''a'', ''b'', ''c'']"
    by (simp add: three_queued_def addToQueue_def init_def)
  show ?thesis
    using C6_sequential_in_timestamp_order [of api_ok ?w] q ts rq r
    by simp
qed

text \<open>
  Claim C8. Whatever the collaborator answers to the earlier calls, a drain cycle goes
  through its whole snapshot: the operations of the calls it makes are the operations of
  the snapshot that have a request to send, all of them and in order, the requests it
  submits are their requests, and every operation of the snapshot is handed to
  \<^verbatim>\<open>processOperation\<close>. The catch block, like the whole pass over an operation, leaves
  the rows with another key exactly as they were.
\<close>

theorem C8_no_fail_fast_and_frame:
  "map call_op (cycle_calls api w)
     = filter (\<lambda>op. request_of op \<noteq> None) (orderBy_timestamp (syncQueue (db w))) \<and>
   map call_request (cycle_calls api w)
     = List.map_filter request_of (orderBy_timestamp (syncQueue (db w))) \<and>
   attempted (processQueue False api w) = attempted w @ orderBy_timestamp (syncQueue (db w)) \<and>
   filter (\<lambda>row. op_id row \<noteq> op_id op) (syncQueue (catch_block op error d))
     = filter (\<lambda>row. op_id row \<noteq> op_id op) (syncQueue d) \<and>
   filter (\<lambda>row. op_id row \<noteq> op_id op) (syncQueue (db (replay api op w)))
     = filter (\<lambda>row. op_id row \<noteq> op_id op) (syncQueue (db w))"
  by (simp add: cycle_calls_eq drain_calls_ops drain_calls_requests processQueue_def Let_def
        drain_attempted catch_block_frame replay_frame)

text \<open>
  On this run the collaborator throws at every call: the create fails, the update after
  it is submitted all the same and fails too, and both rows stay queued with one attempt.
\<close>

theorem C8_witness:
  "syncQueue (db (create_then_known ())) = [create_session, update_known_after] \<and>
   map call_op (cycle_calls api_down (create_then_known ())) = [create_session, update_known_after] \<and>
   map call_request (cycle_calls api_down (create_then_known ()))
     = [Post ''/sessions'' [(''productId'', ''p1'')],
        Patch ''/sessions/srv-1'' [(''status'', ''CLOSED'')]] \<and>
   map call_outcome (cycle_calls api_down (create_then_known ()))
     = [Throws ''Error: Network Error'', Throws ''Error: Network Error''] \<and>
   attempted (processQueue False api_down (create_then_known ()))
     = [create_session, update_known_after] \<and>
   syncQueue (db (processQueue False api_down (create_then_known ())))
     = [create_session\<lparr>attempts := 1, lastError := Some ''Error: Network Error''\<rparr>,
        update_known_after\<lparr>attempts := 1, lastError := Some ''Error: Network Error''\<rparr>] \<and>
   filter (\<lambda>row. op_id row \<noteq> op_id create_session)
      (syncQueue (db (replay api_down create_session (create_then_known ()))))
     = [update_known_after]"
proof -
  let ?w = "create_then_known ()"
  have q: "syncQueue (db ?w) = [create_session, update_known_after]"
    by (simp add: concrete_defs)
  have a: "attempted ?w = []"
    by (simp add: concrete_defs)
  have s: "orderBy_timestamp [create_session, update_known_after] = [create_session, update_known_after]"
    by (simp add: orderBy_timestamp_def create_session_def update_known_after_def)
  have r: "request_of create_session = Some (Post ''/sessions'' [(''productId'', ''p1'')])"
      "request_of update_known_after = Some (Patch ''/sessions/srv-1'' [(''status'', ''CLOSED'')])"
    by (simp_all add: request_of_def create_session_def update_known_after_def)
  have out: "map call_outcome (cycle_calls api_down ?w)
      = [Throws ''Error: Network Error'', Throws ''Error: Network Error'']"
    by (simp add: cycle_calls_eq q s r new_calls_def next_remote_def api_down_def)
  have fin: "syncQueue (db (processQueue False api_down ?w))
     = [create_session\<lparr>attempts := 1, lastError := Some ''Error: Network Error''\<rparr>,
        update_known_after\<lparr>attempts := 1, lastError := Some ''Error: Network Error''\<rparr>]"
    by (simp add: concrete_defs run_defs)
  have i: "op_id create_session \<noteq> op_id update_known_after"
    by (simp add: create_session_def update_known_after_def)
  show ?thesis
    using C8_no_fail_fast_and_frame [of api_down ?w create_session undefined "db ?w"] q a s r out fin i
    by simp
qed

text \<open>
  Claim C9. For a DELETE of an item or an UPDATE of a defect, the pass over the row makes
  no remote call, leaves the collaborator untouched, and deletes the row from the queue
  as after a success; nothing else in the database changes.
\<close>

theorem C9_no_handler_case:
  assumes "(entityType op = Item \<and> op_type op = DELETE) \<or> (entityType op = Defect \<and> op_type op = UPDATE)"
  shows "submitted (replay api op w) = submitted w \<and>
         remote (replay api op w) = remote w \<and>
         db (replay api op w) = queue_delete (op_id op) (db w) \<and>
         (\<forall>row \<in> set (syncQueue (db (replay api op w))). op_id row \<noteq> op_id op)"
proof -
  have "request_of op = None"
    using assms by (auto simp: request_of_def)
  then show ?thesis
    by (simp add: replay_no_request queue_delete_def)
qed

theorem C9_witness:
  "((entityType item_delete = Item \<and> op_type item_delete = DELETE)
      \<or> (entityType item_delete = Defect \<and> op_type item_delete = UPDATE)) \<and>
   syncQueue (db (queued item_delete ())) = [item_delete] \<and>
   submitted (replay api_ok item_delete (queued item_delete [])) = [] \<and>
   syncQueue (db (replay api_ok item_delete (queued item_delete []))) = []"
  using C9_no_handler_case [of item_delete api_ok "queued item_delete []"]
  by (simp add: queued_def addToQueue_def init_def item_delete_def queue_delete_def)

text \<open>
  Claim C10. When the remote call of a CREATE replay returns, and the response has
  \<^verbatim>\<open>success\<close> false or no \<^verbatim>\<open>data\<close>, or the store has no entity under the row's local
  identifier, the row is deleted from the queue and nothing else in the database
  changes: no identifier is bound and no entity is marked \<^verbatim>\<open>synced\<close>.
\<close>

theorem C10_create_without_binding:
  assumes "op_type op = CREATE"
    and "submitted (replay api op w) = submitted w @ [c]"
    and "call_outcome c = Returns response"
    and "\<not> success response \<or> response_data response = None
         \<or> table (entityType op) (db w) (localId op) = None"
  shows "db (replay api op w) = queue_delete (op_id op) (db w) \<and>
         (\<forall>row \<in> set (syncQueue (db (replay api op w))). op_id row \<noteq> op_id op) \<and>
         table (entityType op) (db (replay api op w)) (localId op)
           = table (entityType op) (db w) (localId op)"
proof -
  let ?w = "w\<lparr>attempted := attempted w @ [op]\<rparr>"
  from assms(2) have nc: "new_calls api op (remote w) = [c]"
    by (simp add: replay_submitted)
  then obtain req where req: "request_of op = Some req"
    and c: "c = \<lparr>call_op = op, call_request = req, call_outcome = fst (api (remote w) req)\<rparr>"
    by (auto simp: new_calls_def split: option.splits)
  from c assms(3) have ret: "fst (api (remote ?w) req) = Returns response"
    by simp
  have tab: "\<not> success response \<or> response_data response = None
         \<or> table (entityType op) (db ?w) (localId op) = None"
    using assms(4) by simp
  have same: "db (snd (processOperation api op ?w)) = db w"
    using processOperation_CREATE_unbound [of op req api ?w response, OF assms(1) req ret tab] by simp
  have out: "fst (processOperation api op ?w) = Returns ()"
    using req ret by (simp add: processOperation_outcome)
  have "db (replay api op w) = queue_delete (op_id op) (db w)"
    using same out by (simp add: replay_alt Let_def)
  then show ?thesis
    by (simp add: queue_delete_def table_def split: EntityType.splits)
qed

theorem C10_witness:
  "op_type create_session = CREATE \<and>
   submitted (replay api_rejects create_session (queued create_session ()))
     = submitted (queued create_session ()) @
       [\<lparr>call_op = create_session, call_request = Post ''/sessions'' [(''productId'', ''p1'')],
         call_outcome = Returns \<lparr>success = False, response_data = None\<rparr>\<rparr>] \<and>
   syncQueue (db (replay api_rejects create_session (queued create_session ()))) = [] \<and>
   table Session (db (replay api_rejects create_session (queued create_session ()))) ''local-1''
     = Some pending_entity"
proof -
  let ?c = "\<lparr>call_op = create_session, call_request = Post ''/sessions'' [(''productId'', ''p1'')],
         call_outcome = Returns \<lparr>success = False, response_data = None\<rparr>\<rparr>"
  have h1: "op_type create_session = CREATE"
    by (simp add: create_session_def)
  have h2: "submitted (replay api_rejects create_session (queued create_session ()))
     = submitted (queued create_session ()) @ [?c]"
    by (simp add: replay_submitted new_calls_def request_of_def create_session_def api_rejects_def)
  have h3: "call_outcome ?c = Returns \<lparr>success = False, response_data = None\<rparr>"
    by simp
  have h4: "\<not> success \<lparr>success = False, response_data = None\<rparr>
      \<or> response_data \<lparr>success = False, response_data = None\<rparr> = None
      \<or> table (entityType create_session) (db (queued create_session ())) (localId create_session) = None"
    by simp
  have t: "table Session (db (queued create_session ())) ''local-1'' = Some pending_entity"
    by (simp add: table_def queued_def addToQueue_def init_def)
  have q: "syncQueue (db (queued create_session ())) = [create_session]"
    by (simp add: concrete_defs)
  have f: "entityType create_session = Session" "localId create_session = ''local-1''"
    by (simp_all add: create_session_def)
  show ?thesis
    using C10_create_without_binding [OF h1 h2 h3 h4] h1 h2 t q f
    by (simp add: queue_delete_def table_def)
qed

end
